theory Spec2Isabelle
  imports
    Complex_Main
    "HOL-Library.Char_ord"
    "HOL-Library.List_Lexorder"
    "HOL-Library.Product_Lexorder"
    "HOL-Library.AList"
begin

section \<open>Weekly occupancy timeline (heatmap.py): the pipeline and the renderer\<close>

text \<open>
  The script \<^verbatim>\<open>heatmap.py\<close> cleans a table of occupancy records, geocodes the postal
  codes, separates coincident points, bins the records by calendar week, aggregates them
  per week and postal code, maps capacity to two radii, and finally injects a JavaScript
  renderer that replays the weekly timeline.

  Numbers: Python floats and JavaScript numbers are modelled as exact rationals
  (\<^typ>\<open>rat\<close>). Comparisons, \<^verbatim>\<open>min\<close>, \<^verbatim>\<open>max\<close> and the rounding functions are the exact ones;
  the rounding error of IEEE double arithmetic is outside the model. Strings are byte
  strings, so the character operations are the ASCII ones.
\<close>

subsection \<open>Configuration constants (lines 29-34, 114-115)\<close>

definition CIRCLE_RADIUS_M :: rat where "CIRCLE_RADIUS_M = 100"
definition GREEN_MIN_M :: rat where "GREEN_MIN_M = (75 / 100) * (1609344 / 1000)"
definition GREEN_MAX_M :: rat where "GREEN_MAX_M = 2 * (1609344 / 1000)"
definition PULSE_OVERSHOOT :: rat where "PULSE_OVERSHOOT = 35 / 100"
definition CAP_MIN_R :: rat where "CAP_MIN_R = 80"
definition CAP_MAX_R :: rat where "CAP_MAX_R = 500"

subsection \<open>Rounding\<close>

text \<open>
  Python's \<^verbatim>\<open>round(x, ndigits)\<close> rounds to the nearest multiple of \<open>10 ^ - ndigits\<close> and
  sends a tie to the even neighbour. JavaScript's \<^verbatim>\<open>Math.round\<close> sends a tie upwards, which is
  HOL's \<^const>\<open>round\<close>.
\<close>

definition round_half_even :: "rat \<Rightarrow> int" where
  "round_half_even y =
     (let f = \<lfloor>y\<rfloor>; d = y - of_int f
      in if d < 1 / 2 then f else if 1 / 2 < d then f + 1 else if even f then f else f + 1)"

definition py_round :: "rat \<Rightarrow> nat \<Rightarrow> rat" where
  "py_round x ndigits = of_int (round_half_even (x * 10 ^ ndigits)) / 10 ^ ndigits"

subsection \<open>Step 1: load and clean (lines 38-53)\<close>

text \<open>
  A raw row holds the four cells read from the CSV file; a missing postal code is \<open>None\<close>.
  \<^verbatim>\<open>pd.to_numeric(errors="coerce")\<close> and \<^verbatim>\<open>pd.to_datetime(errors="coerce")\<close> are library
  functions: they are parameters of the model, returning \<open>None\<close> where pandas yields NaN/NaT.
  A date is the number of days since 1970-01-01.
\<close>

record raw_row =
  LOCATION_POSTAL_CODE :: "string option"
  OCCUPANCY_DATE :: string
  ACTUAL_CAPACITY :: string
  OCCUPIED_CAPACITY :: string

record clean_row =
  c_post :: string
  c_fsa :: string
  c_date :: int
  c_cap :: rat
  c_occ :: rat

definition upper_char :: "char \<Rightarrow> char" where
  "upper_char c =
     (if CHR ''a'' \<le> c \<and> c \<le> CHR ''z'' then char_of (of_char c - (32 :: nat)) else c)"

text \<open>Line 42: \<^verbatim>\<open>.str.upper().str.replace(" ", "", regex=False)\<close>.\<close>

definition normalize_code :: "string \<Rightarrow> string" where
  "normalize_code s = filter (\<lambda>c. c \<noteq> CHR '' '') (map upper_char s)"

text \<open>Line 44: the pattern \<^verbatim>\<open>[ABCEGHJ-NPRSTVXY]\d[ABCEGHJ-NPRSTV-Z]\d[ABCEGHJ-NPRSTV-Z]\d\<close>.\<close>

definition first_letters :: "char set" where
  "first_letters = set ''ABCEGHJKLMNPRSTVXY''"

definition other_letters :: "char set" where
  "other_letters = set ''ABCEGHJKLMNPRSTVWXYZ''"

definition digit_chars :: "char set" where
  "digit_chars = set ''0123456789''"

fun fullmatch_pattern :: "string \<Rightarrow> bool" where
  "fullmatch_pattern [a, b, c, d, e, f] =
     (a \<in> first_letters \<and> b \<in> digit_chars \<and> c \<in> other_letters \<and> d \<in> digit_chars
      \<and> e \<in> other_letters \<and> f \<in> digit_chars)"
| "fullmatch_pattern _ = False"

definition clean_one ::
  "(string \<Rightarrow> rat option) \<Rightarrow> (string \<Rightarrow> int option) \<Rightarrow> raw_row \<Rightarrow> clean_row option" where
  "clean_one to_numeric to_datetime r =
     (case LOCATION_POSTAL_CODE r of
        None \<Rightarrow> None
      | Some p \<Rightarrow>
          (let code = normalize_code p in
           if \<not> fullmatch_pattern code then None
           else (case to_numeric (ACTUAL_CAPACITY r) of
                   None \<Rightarrow> None
                 | Some cap \<Rightarrow>
                     (case to_numeric (OCCUPIED_CAPACITY r) of
                        None \<Rightarrow> None
                      | Some occ \<Rightarrow>
                          (case to_datetime (OCCUPANCY_DATE r) of
                             None \<Rightarrow> None
                           | Some d \<Rightarrow>
                               Some \<lparr>c_post = code, c_fsa = take 3 code, c_date = d,
                                     c_cap = cap, c_occ = occ\<rparr>)))))"

definition clean ::
  "(string \<Rightarrow> rat option) \<Rightarrow> (string \<Rightarrow> int option) \<Rightarrow> raw_row list \<Rightarrow> clean_row list" where
  "clean to_numeric to_datetime rows = List.map_filter (clean_one to_numeric to_datetime) rows"

subsection \<open>Step 2: geocoding with fallback, and the jitter (lines 58-86)\<close>

text \<open>
  \<^verbatim>\<open>nomi.query_postal_code\<close> is the external geocoder: a parameter that returns a latitude and
  a longitude, each possibly missing. A code with a missing coordinate is looked up again by
  its first three characters; a row whose coordinates are still missing is dropped.
\<close>

record row =
  post :: string
  fsa :: string
  date :: int
  cap :: rat
  occ :: rat
  lat :: rat
  lon :: rat




text \<open>
  Lines 81-83. The parameter \<open>md5_hex8\<close> stands for the library part of line 82,
  \<^verbatim>\<open>int(hashlib.md5(code.encode()).hexdigest()[:8], 16)\<close>: the first eight hexadecimal digits
  of the MD5 digest of the code, read as a number.
\<close>

definition jitter :: "(string \<Rightarrow> nat) \<Rightarrow> string \<Rightarrow> rat \<times> rat" where
  "jitter md5_hex8 code =
     (let h = md5_hex8 code
      in ((of_nat (h mod 1000) / 999 - 5 / 10) * (4 / 1000),
          (of_nat ((h div 1000) mod 1000) / 999 - 5 / 10) * (4 / 1000)))"

text \<open>
  Line 79: \<^verbatim>\<open>df.duplicated(subset=["lat", "lon", POST_COL], keep=False)\<close> marks every row whose
  triple occurs more than once in the frame.
\<close>

definition triple :: "row \<Rightarrow> rat \<times> rat \<times> string" where
  "triple r = (lat r, lon r, post r)"

definition dupe :: "row list \<Rightarrow> row \<Rightarrow> bool" where
  "dupe df r = (1 < length (filter (\<lambda>q. triple q = triple r) df))"

definition jitter_row :: "(string \<Rightarrow> nat) \<Rightarrow> row list \<Rightarrow> row \<Rightarrow> row" where
  "jitter_row md5_hex8 df r =
     (if dupe df r
      then r\<lparr>lat := lat r + fst (jitter md5_hex8 (post r)),
             lon := lon r + snd (jitter md5_hex8 (post r))\<rparr>
      else r)"

definition jitter_step :: "(string \<Rightarrow> nat) \<Rightarrow> row list \<Rightarrow> row list" where
  "jitter_step md5_hex8 df = map (jitter_row md5_hex8 df) df"

subsection \<open>Step 3: weekly bins and aggregation (lines 91-109)\<close>

text \<open>
  \<^verbatim>\<open>dt.to_period("W")\<close> gives the Monday-to-Sunday week of a date. A week is modelled by the
  day number of its Monday (1970-01-01 was a Thursday); its label
  \<^verbatim>\<open>YYYY-MM-DD/YYYY-MM-DD\<close> sorts as the day number does.
\<close>

datatype error = ValueError | ZeroDivisionError | TypeError

definition week_of :: "int \<Rightarrow> int" where
  "week_of d = d - (d + 3) mod 7"

definition BIN :: "row \<Rightarrow> int" where
  "BIN r = week_of (date r)"

definition bins_all :: "row list \<Rightarrow> int list" where
  "bins_all df = sort (remdups (map BIN df))"

text \<open>Line 94: \<^verbatim>\<open>pd.Period("2024-01-01", freq="W")\<close>; 2024-01-01 is day 19723.\<close>

definition start_period :: int where
  "start_period = week_of 19723"

definition bins :: "row list \<Rightarrow> int list" where
  "bins df = sort (filter (\<lambda>b. start_period \<le> b) (bins_all df))"

record agg_row =
  a_bin :: int
  a_post :: string
  a_lat :: rat
  a_lon :: rat
  total_cap :: rat
  occupied :: rat
  rate :: rat

definition group_key :: "row \<Rightarrow> int \<times> string \<times> rat \<times> rat" where
  "group_key r = (BIN r, post r, lat r, lon r)"

definition mean :: "rat list \<Rightarrow> rat" where
  "mean xs = sum_list xs / of_nat (length xs)"

text \<open>
  Lines 102-106: one row per group, the groups in sorted key order, with the mean capacity
  and the mean occupied value of the group's rows.
\<close>

definition agg_groups :: "row list \<Rightarrow> ((int \<times> string \<times> rat \<times> rat) \<times> rat \<times> rat) list" where
  "agg_groups df =
     map (\<lambda>k. let g = filter (\<lambda>r. group_key r = k) df
              in (k, mean (map cap g), mean (map occ g)))
         (sort (remdups (map group_key df)))"

text \<open>
  Lines 107-108: a zero capacity is replaced by NaN, so the rate is NaN and the row is
  dropped. Line 109 keeps the rows whose bin is in \<open>bins\<close>.
\<close>

definition with_rate :: "((int \<times> string \<times> rat \<times> rat) \<times> rat \<times> rat) \<Rightarrow> agg_row option" where
  "with_rate g =
     (case g of ((b, p, la, lo), tc, oc) \<Rightarrow>
        if tc = 0 then None
        else Some \<lparr>a_bin = b, a_post = p, a_lat = la, a_lon = lo, total_cap = tc,
                   occupied = oc, rate = oc / tc\<rparr>)"

definition agg :: "row list \<Rightarrow> agg_row list" where
  "agg df = filter (\<lambda>a. a_bin a \<in> set (bins df)) (List.map_filter with_rate (agg_groups df))"

subsection \<open>Step 4: radius scaling (lines 114-131)\<close>

text \<open>
  Lines 116-119. On an empty frame pandas returns NaN for both extremes and no radius is
  ever computed: \<open>None\<close>.
\<close>

definition cap_range :: "rat list \<Rightarrow> (rat \<times> rat) option" where
  "cap_range caps =
     (case caps of
        [] \<Rightarrow> None
      | c # cs \<Rightarrow>
          (let cap_min = fold min cs c; cap_max = fold max cs c
           in Some (cap_min, if cap_max \<le> cap_min then cap_min + 1 else cap_max)))"

text \<open>Python's float division raises on a zero divisor.\<close>

definition py_div :: "rat \<Rightarrow> rat \<Rightarrow> error + rat" where
  "py_div a b = (if b = 0 then Inl ZeroDivisionError else Inr (a / b))"

definition cap_radius :: "rat \<Rightarrow> rat \<Rightarrow> rat \<Rightarrow> error + rat" where
  "cap_radius cap_min cap_max c =
     (case py_div (c - cap_min) (cap_max - cap_min) of
        Inl e \<Rightarrow> Inl e
      | Inr q \<Rightarrow>
          (let x = max 0 (min 1 q)
           in Inr (py_round (CAP_MIN_R + x * (CAP_MAX_R - CAP_MIN_R)) 1)))"

definition green_radius :: "rat \<Rightarrow> rat \<Rightarrow> rat \<Rightarrow> error + rat" where
  "green_radius cap_min cap_max c =
     (case py_div (c - cap_min) (cap_max - cap_min) of
        Inl e \<Rightarrow> Inl e
      | Inr q \<Rightarrow>
          (let x = max 0 (min 1 q)
           in Inr (py_round (GREEN_MIN_M + x * (GREEN_MAX_M - GREEN_MIN_M)) 1)))"

subsection \<open>Step 5: the timeline handed to the renderer (lines 136-148, 200-201)\<close>

record frame =
  f_lat :: rat
  f_lon :: rat
  f_rate :: rat
  radius_m :: rat
  green_r :: rat

type_synonym timeline = "(string \<times> (int \<times> frame) list) list"

definition make_frame :: "rat \<Rightarrow> rat \<Rightarrow> agg_row \<Rightarrow> error + frame" where
  "make_frame cap_min cap_max a =
     (case cap_radius cap_min cap_max (total_cap a) of
        Inl e \<Rightarrow> Inl e
      | Inr r \<Rightarrow>
          (case green_radius cap_min cap_max (total_cap a) of
             Inl e \<Rightarrow> Inl e
           | Inr g \<Rightarrow>
               Inr \<lparr>f_lat = py_round (a_lat a) 6, f_lon = py_round (a_lon a) 6,
                    f_rate = py_round (rate a) 4, radius_m = r, green_r = g\<rparr>))"

text \<open>
  Lines 138-148: a Python dict keeps the insertion order of its keys and an assignment to an
  existing key replaces the value in place, as \<^const>\<open>AList.update\<close> does.
\<close>

definition put_frame :: "timeline \<Rightarrow> agg_row \<times> frame \<Rightarrow> timeline" where
  "put_frame sd af =
     (case af of (a, f) \<Rightarrow>
        (let weeks = (case map_of sd (a_post a) of None \<Rightarrow> [] | Some w \<Rightarrow> w)
         in AList.update (a_post a) (AList.update (a_bin a) f weeks) sd))"

fun make_frames :: "rat \<Rightarrow> rat \<Rightarrow> agg_row list \<Rightarrow> error + (agg_row \<times> frame) list" where
  "make_frames cap_min cap_max [] = Inr []"
| "make_frames cap_min cap_max (a # as) =
     (case make_frame cap_min cap_max a of
        Inl e \<Rightarrow> Inl e
      | Inr f \<Rightarrow>
          (case make_frames cap_min cap_max as of
             Inl e \<Rightarrow> Inl e
           | Inr fs \<Rightarrow> Inr ((a, f) # fs)))"

definition shelter_data :: "agg_row list \<Rightarrow> error + timeline" where
  "shelter_data ag =
     (case cap_range (map total_cap ag) of
        None \<Rightarrow> Inr []
      | Some (cap_min, cap_max) \<Rightarrow>
          (case make_frames cap_min cap_max ag of
             Inl e \<Rightarrow> Inl e
           | Inr afs \<Rightarrow> Inr (foldl put_frame [] afs)))"

text \<open>
  The whole script up to the values embedded in the page. The map is built and saved
  (lines 156-431) only after these steps; a raise leaves no file. The calls into folium
  and geopandas in between are taken to succeed.
\<close>

record artifact =
  SHELTER_DATA :: timeline
  BINS :: "int list"


definition build :: "row list \<Rightarrow> error + artifact" where
  "build df =
     (if bins df = [] then Inl ValueError
      else (case shelter_data (agg df) of
              Inl e \<Rightarrow> Inl e
            | Inr sd \<Rightarrow> Inr \<lparr>SHELTER_DATA = sd, BINS = bins df\<rparr>))"


subsection \<open>Step 7: the renderer (the script injected at lines 207-423)\<close>

text \<open>
  Leaflet's circles are external objects: the model records each call the renderer makes on
  them, in order, as an effect \<open>(sid, circle, call)\<close>. \<open>Pulse r\<close> is the call
  \<^verbatim>\<open>pulse(circles[sid].blue, r)\<close>, which schedules the overshoot animation; \<open>SetRadius r\<close>
  sets the radius at once. A JavaScript object is an association list in insertion order;
  reading a missing key or an index out of range gives \<^verbatim>\<open>undefined\<close>, here \<open>None\<close>.
\<close>

definition PALETTE :: "string list" where
  "PALETTE = [''#386D9C'', ''#4C6D8D'', ''#606C7D'', ''#9B6A4E'', ''#AF693F'',
              ''#C3682F'', ''#D7671F'', ''#EB6710'', ''#FF6600'']"

definition js_index :: "'a list \<Rightarrow> int \<Rightarrow> 'a option" where
  "js_index xs i = (if 0 \<le> i \<and> i < int (length xs) then Some (xs ! nat i) else None)"

text \<open>Lines 229-234.\<close>

definition rateColor :: "rat \<Rightarrow> string option" where
  "rateColor r =
     (if r < 5 / 10 then Some ''#2e8b57''
      else if r < 8 / 10 then Some ''#386D9C''
      else (let snapped = round (min ((r - 8 / 10) / (2 / 10)) 1 * of_int (int (length PALETTE) - 1))
            in js_index PALETTE (min snapped (int (length PALETTE) - 1))))"

datatype circle = Blue | Green

datatype call =
    SetLatLng rat rat
  | SetStyle_fillColor "string option"
  | SetTooltipContent string
  | SetRadius rat
  | Pulse rat

type_synonym effect = "string \<times> circle \<times> call"

text \<open>
  Lines 284-312: what a pulse does. The animation frame at elapsed time \<open>el\<close> (in
  milliseconds since the first frame) sets the radius of the blue circle to \<open>pulse_step\<close>;
  frames are requested while \<open>el\<close> is below the duration.
\<close>

definition ANIM_MS :: rat where "ANIM_MS = 650"

definition easeOut :: "rat \<Rightarrow> rat" where
  "easeOut t = 1 - (1 - t) ^ 3"

definition pulse_step :: "rat \<Rightarrow> rat \<Rightarrow> rat" where
  "pulse_step targetR el =
     (let peakB = targetR * (1 + PULSE_OVERSHOOT);
          PHASE1 = ANIM_MS * (40 / 100);
          PHASE2 = ANIM_MS * (60 / 100)
      in if el < PHASE1 then targetR + (peakB - targetR) * easeOut (el / PHASE1)
         else if el < PHASE1 + PHASE2 then peakB + (targetR - peakB) * easeOut ((el - PHASE1) / PHASE2)
         else targetR)"

record render_state =
  currentBin :: int
  playing :: bool
  playTimer :: bool
  circles :: "string list"
  prevRate :: "(string \<times> rat) list"

text \<open>Number to string, for the tooltip of line 336.\<close>

function digits_of :: "nat \<Rightarrow> string" where
  "digits_of n =
     (if n < 10 then [char_of (48 + n)] else digits_of (n div 10) @ [char_of (48 + n mod 10)])"
  by pat_completeness auto
termination
  by (relation "measure id") auto

definition js_string_of_int :: "int \<Rightarrow> string" where
  "js_string_of_int i = (if i < 0 then CHR ''-'' # digits_of (nat (- i)) else digits_of (nat i))"

text \<open>Line 325: \<^verbatim>\<open>(SHELTER_DATA[sid] || {})[bin]\<close>.\<close>

definition lookup_frame :: "timeline \<Rightarrow> string \<Rightarrow> int option \<Rightarrow> frame option" where
  "lookup_frame sd sid bin =
     (case bin of
        None \<Rightarrow> None
      | Some b \<Rightarrow> (case map_of sd sid of None \<Rightarrow> None | Some weeks \<Rightarrow> map_of weeks b))"

text \<open>Lines 325-347: the body of the loop of \<^verbatim>\<open>renderBin\<close> for one entity.\<close>

definition render_entity ::
  "timeline \<Rightarrow> int option \<Rightarrow> (string \<times> rat) list \<Rightarrow> string \<Rightarrow> (string \<times> rat) list \<times> effect list" where
  "render_entity sd bin pr sid =
     (case lookup_frame sd sid bin of
        None \<Rightarrow> (pr, [])
      | Some d \<Rightarrow>
          (let prev = (case map_of pr sid of Some p \<Rightarrow> p | None \<Rightarrow> f_rate d);
               col = rateColor (f_rate d);
               radius = radius_m d
           in (AList.update sid (f_rate d) pr,
               [(sid, Blue, SetLatLng (f_lat d) (f_lon d)),
                (sid, Green, SetLatLng (f_lat d) (f_lon d)),
                (sid, Blue, SetStyle_fillColor col),
                (sid, Blue, SetTooltipContent
                   (sid @ '' | '' @ js_string_of_int (round (f_rate d * 100)) @ ''% occupancy'')),
                (sid, Green, SetRadius (green_r d)),
                (sid, Blue, if \<bar>f_rate d - prev\<bar> > 1 / 100 then Pulse radius else SetRadius radius)])))"

fun render_loop ::
  "timeline \<Rightarrow> int option \<Rightarrow> string list \<Rightarrow> (string \<times> rat) list \<Rightarrow> (string \<times> rat) list \<times> effect list" where
  "render_loop sd bin [] pr = (pr, [])"
| "render_loop sd bin (sid # sids) pr =
     (let (pr1, es1) = render_entity sd bin pr sid;
          (pr2, es2) = render_loop sd bin sids pr1
      in (pr2, es1 @ es2))"

text \<open>Lines 315-349, without the slider and label mirrors of lines 319-322.\<close>

definition renderBin :: "artifact \<Rightarrow> int \<Rightarrow> render_state \<Rightarrow> render_state \<times> effect list" where
  "renderBin art idx st =
     (let (pr, es) = render_loop (SHELTER_DATA art) (js_index (BINS art) idx) (circles st) (prevRate st)
      in (st\<lparr>currentBin := idx, prevRate := pr\<rparr>, es))"

text \<open>
  Lines 237-281: one pair of circles per entity, seeded from the entity's first week, then
  the first render. An entity without any week would make \<^verbatim>\<open>d.lat\<close> throw.
\<close>

fun seed :: "timeline \<Rightarrow> error + (string \<times> rat) list" where
  "seed [] = Inr []"
| "seed ((sid, weeks) # rest) =
     (case weeks of
        [] \<Rightarrow> Inl TypeError
      | (firstBin, d) # _ \<Rightarrow>
          (case seed rest of Inl e \<Rightarrow> Inl e | Inr pr \<Rightarrow> Inr ((sid, f_rate d) # pr)))"

definition init :: "artifact \<Rightarrow> error + render_state \<times> effect list" where
  "init art =
     (case seed (SHELTER_DATA art) of
        Inl e \<Rightarrow> Inl e
      | Inr pr \<Rightarrow>
          Inr (renderBin art 0
                 \<lparr>currentBin = 0, playing = False, playTimer = False,
                  circles = map fst (SHELTER_DATA art), prevRate = pr\<rparr>))"

text \<open>
  Lines 380-412: the transport controls. An event is what the page delivers to a handler;
  the timer fires only while it is pending.
\<close>

datatype event = SliderInput int | ClickPrev | ClickNext | ClickPlay | TimerFires

definition stopPlay :: "render_state \<Rightarrow> render_state" where
  "stopPlay st = st\<lparr>playing := False, playTimer := False\<rparr>"

definition startPlay :: "render_state \<Rightarrow> render_state" where
  "startPlay st = st\<lparr>playing := True, playTimer := True\<rparr>"

definition tick :: "artifact \<Rightarrow> render_state \<Rightarrow> render_state \<times> effect list" where
  "tick art st =
     (let next = (if currentBin st + 1 \<ge> int (length (BINS art)) then 0 else currentBin st + 1);
          (st', es) = renderBin art next st
      in (st'\<lparr>playTimer := True\<rparr>, es))"

fun handle :: "artifact \<Rightarrow> event \<Rightarrow> render_state \<Rightarrow> render_state \<times> effect list" where
  "handle art (SliderInput v) st = renderBin art v (stopPlay st)"
| "handle art ClickPrev st = renderBin art (max 0 (currentBin st - 1)) (stopPlay st)"
| "handle art ClickNext st =
     renderBin art (min (int (length (BINS art)) - 1) (currentBin st + 1)) (stopPlay st)"
| "handle art ClickPlay st = (if playing st then stopPlay st else startPlay st, [])"
| "handle art TimerFires st = (if playTimer st then tick art st else (st, []))"

text \<open>
  Line 364 gives the slider the attributes \<^verbatim>\<open>min="0"\<close> and \<^verbatim>\<open>max="BINS.length - 1"\<close>, so the
  values a slider input delivers lie between them.
\<close>

fun delivered :: "artifact \<Rightarrow> event \<Rightarrow> bool" where
  "delivered art (SliderInput v) = (0 \<le> v \<and> v \<le> int (length (BINS art)) - 1)"
| "delivered art _ = True"

fun run :: "artifact \<Rightarrow> event list \<Rightarrow> render_state \<Rightarrow> render_state" where
  "run art [] st = st"
| "run art (ev # evs) st = run art evs (fst (handle art ev st))"

subsection \<open>Auxiliary definitions for the properties\<close>

text \<open>The value \<open>x\<close> of lines 122 and 128: the clamped position of a capacity in the range.\<close>

definition unit_pos :: "rat \<Rightarrow> rat \<Rightarrow> rat \<Rightarrow> rat" where
  "unit_pos cap_min cap_max c = max 0 (min 1 ((c - cap_min) / (cap_max - cap_min)))"

text \<open>
  Two records of one entity in the week of 2024-01-01, with capacities 50 and 70 and
  occupied values 40 and 60, and the frame the timeline holds for that entity and week.
\<close>

definition scenario_X :: "row list" where
  "scenario_X =
     [\<lparr>post = ''M5V2T6'', fsa = ''M5V'', date = 19723, cap = 50, occ = 40,
       lat = 4365 / 100, lon = - (7939 / 100)\<rparr>,
      \<lparr>post = ''M5V2T6'', fsa = ''M5V'', date = 19725, cap = 70, occ = 60,
       lat = 4365 / 100, lon = - (7939 / 100)\<rparr>]"

definition scenario_X_frame :: "frame option" where
  "scenario_X_frame =
     (case build scenario_X of
        Inl e \<Rightarrow> None
      | Inr art \<Rightarrow> lookup_frame (SHELTER_DATA art) ''M5V2T6'' (Some 19723))"

text \<open>
  Sample values of the hash of line 82 for two postal codes, and a frame in which the first
  two rows share their coordinates and code while the third row stands alone.
\<close>

definition example_md5_hex8 :: "string \<Rightarrow> nat" where
  "example_md5_hex8 code =
     (if code = ''M5V2T6'' then 1458973752 else if code = ''M4C1B5'' then 305562226 else 0)"

definition scenario_dupes :: "row list" where
  "scenario_dupes =
     [\<lparr>post = ''M5V2T6'', fsa = ''M5V'', date = 19723, cap = 50, occ = 40,
       lat = 4365 / 100, lon = - (7939 / 100)\<rparr>,
      \<lparr>post = ''M5V2T6'', fsa = ''M5V'', date = 19731, cap = 70, occ = 60,
       lat = 4365 / 100, lon = - (7939 / 100)\<rparr>,
      \<lparr>post = ''M4C1B5'', fsa = ''M4C'', date = 19723, cap = 30, occ = 12,
       lat = 4369 / 100, lon = - (7931 / 100)\<rparr>]"

text \<open>
  A raw row whose postal code is written in lower case with a space, with sample results of
  the two pandas coercions; and a frame whose only record lies before the start week.
\<close>

definition example_to_numeric :: "string \<Rightarrow> rat option" where
  "example_to_numeric s = (if s = ''50'' then Some 50 else if s = ''40'' then Some 40 else None)"

definition example_to_datetime :: "string \<Rightarrow> int option" where
  "example_to_datetime s = (if s = ''2024-01-01'' then Some 19723 else None)"

definition example_raw :: raw_row where
  "example_raw =
     \<lparr>LOCATION_POSTAL_CODE = Some ''m5v 2t6'', OCCUPANCY_DATE = ''2024-01-01'',
      ACTUAL_CAPACITY = ''50'', OCCUPIED_CAPACITY = ''40''\<rparr>"


text \<open>
  A timeline of one entity over four weeks with rates 0.70, 0.95, 0.96 and 0.9701, and the
  renderer's state when week \<open>idx\<close> is shown and the rate last rendered is \<open>p\<close>.
\<close>

definition frame_Y :: "rat \<Rightarrow> frame" where
  "frame_Y r =
     \<lparr>f_lat = 4365 / 100, f_lon = - (7939 / 100), f_rate = r, radius_m = 290,
      green_r = 22128 / 10\<rparr>"

definition scenario_Y :: artifact where
  "scenario_Y =
     \<lparr>SHELTER_DATA =
        [(''M5V2T6'',
          [(19723, frame_Y (70 / 100)), (19730, frame_Y (95 / 100)),
           (19737, frame_Y (96 / 100)), (19744, frame_Y (9701 / 10000))])],
      BINS = [19723, 19730, 19737, 19744]\<rparr>"

definition state_Y :: "int \<Rightarrow> rat \<Rightarrow> render_state" where
  "state_Y idx p =
     \<lparr>currentBin = idx, playing = False, playTimer = False, circles = [''M5V2T6''],
      prevRate = [(''M5V2T6'', p)]\<rparr>"

section \<open>Properties\<close>

subsection \<open>The colour scale\<close>





subsection \<open>Rounding is monotone and fixes the grid points\<close>

lemma round_half_even_cases:
  "round_half_even y = \<lfloor>y\<rfloor> \<or> round_half_even y = \<lfloor>y\<rfloor> + 1"
  by (simp add: round_half_even_def Let_def)

lemma round_half_even_mono:
  assumes "x \<le> y"
  shows "round_half_even x \<le> round_half_even y"
proof (cases "\<lfloor>x\<rfloor> = \<lfloor>y\<rfloor>")
  case True
  then show ?thesis
    using assms by (auto simp: round_half_even_def Let_def)
next
  case False
  with assms have "\<lfloor>x\<rfloor> + 1 \<le> \<lfloor>y\<rfloor>"
    using floor_mono [OF assms] by linarith
  then show ?thesis
    using round_half_even_cases [of x] round_half_even_cases [of y] by linarith
qed

lemma round_half_even_of_int: "round_half_even (of_int k) = k"
  by (simp add: round_half_even_def)

lemma round_half_even_down:
  assumes "of_int k \<le> y" and "y < of_int k + 1 / 2"
  shows "round_half_even y = k"
proof -
  from assms have "\<lfloor>y\<rfloor> = k" by (simp add: floor_eq_iff)
  with assms show ?thesis by (simp add: round_half_even_def Let_def)
qed

lemma round_half_even_up:
  assumes "of_int k + 1 / 2 < y" and "y < of_int k + 1"
  shows "round_half_even y = k + 1"
proof -
  from assms have "\<lfloor>y\<rfloor> = k" by (simp add: floor_eq_iff)
  with assms show ?thesis by (simp add: round_half_even_def Let_def)
qed

lemma py_round_mono: "x \<le> y \<Longrightarrow> py_round x n \<le> py_round y n"
  unfolding py_round_def
  by (intro divide_right_mono) (simp_all add: round_half_even_mono)

lemma py_round_80: "py_round 80 1 = 80"
  using round_half_even_of_int [of 800] by (simp add: py_round_def)

lemma py_round_500: "py_round 500 1 = 500"
  using round_half_even_of_int [of 5000] by (simp add: py_round_def)

lemma py_round_GREEN_MIN_M: "py_round GREEN_MIN_M 1 = 1207"
  using round_half_even_down [of 12070 "GREEN_MIN_M * 10"]
  by (simp add: py_round_def GREEN_MIN_M_def)

lemma py_round_GREEN_MAX_M: "py_round GREEN_MAX_M 1 = 32187 / 10"
  using round_half_even_up [of 32186 "GREEN_MAX_M * 10"]
  by (simp add: py_round_def GREEN_MAX_M_def)

lemma py_round_rate_X: "py_round (5 / 6) 4 = 8333 / 10000"
  using round_half_even_down [of 8333 "5 / 6 * 10 ^ 4"]
  by (simp add: py_round_def)

subsection \<open>Aggregation of two records\<close>

lemma bins_two:
  assumes "group_key r1 = group_key r2" and "start_period \<le> BIN r1"
  shows "bins [r1, r2] = [BIN r1]"
proof -
  have "BIN r2 = BIN r1" using assms(1) by (simp add: group_key_def)
  then show ?thesis using assms(2) by (simp add: bins_def bins_all_def)
qed

lemma agg_two:
  assumes "group_key r1 = group_key r2" and "start_period \<le> BIN r1"
    and "cap r1 = 50" and "cap r2 = 70" and "occ r1 = 40" and "occ r2 = 60"
  shows "agg [r1, r2] =
           [\<lparr>a_bin = BIN r1, a_post = post r1, a_lat = lat r1, a_lon = lon r1,
             total_cap = 60, occupied = 50, rate = 5 / 6\<rparr>]"
proof -
  have g: "agg_groups [r1, r2] = [(group_key r1, 60, 50)]"
    using assms by (simp add: agg_groups_def mean_def Let_def)
  show ?thesis
    unfolding agg_def g bins_two [OF assms(1,2)]
    by (simp add: List.map_filter_def with_rate_def group_key_def)
qed

text \<open>
  C3, as the code has it: two records of one entity in one retained week with capacities
  50 and 70 and occupied values 40 and 60 aggregate to one sample with mean capacity 60,
  mean occupied 50 and rate 5/6, which the timeline stores as 0.8333. The colour of 0.8333
  is the palette entry at index 1, \<^verbatim>\<open>#4C6D8D\<close>, because
  \<open>round ((0.8333 - 0.8) / 0.2 * 8) = round 1.332 = 1\<close>.
\<close>

theorem two_records_aggregate:
  assumes "group_key r1 = group_key r2" and "start_period \<le> BIN r1"
    and "cap r1 = 50" and "cap r2 = 70" and "occ r1 = 40" and "occ r2 = 60"
  shows "map total_cap (agg [r1, r2]) = [60]
         \<and> map occupied (agg [r1, r2]) = [50]
         \<and> map rate (agg [r1, r2]) = [5 / 6]
         \<and> map (\<lambda>a. py_round (rate a) 4) (agg [r1, r2]) = [8333 / 10000]
         \<and> rateColor (8333 / 10000) = Some (PALETTE ! 1)
         \<and> PALETTE ! 1 = ''#4C6D8D''"
proof -
  have "rateColor (8333 / 10000) = Some (PALETTE ! 1)"
    by code_simp
  moreover have "PALETTE ! 1 = ''#4C6D8D''"
    by (simp add: PALETTE_def)
  ultimately show ?thesis
    unfolding agg_two [OF assms] by (simp add: py_round_rate_X)
qed

theorem two_records_aggregate_witness:
  "map total_cap (agg scenario_X) = [60]
   \<and> map occupied (agg scenario_X) = [50]
   \<and> map rate (agg scenario_X) = [5 / 6]
   \<and> map (\<lambda>a. py_round (rate a) 4) (agg scenario_X) = [8333 / 10000]
   \<and> rateColor (8333 / 10000) = Some ''#4C6D8D''"
  unfolding scenario_X_def
  using two_records_aggregate
    [of "\<lparr>post = ''M5V2T6'', fsa = ''M5V'', date = 19723, cap = 50, occ = 40,
          lat = 4365 / 100, lon = - (7939 / 100)\<rparr>"
        "\<lparr>post = ''M5V2T6'', fsa = ''M5V'', date = 19725, cap = 70, occ = 60,
          lat = 4365 / 100, lon = - (7939 / 100)\<rparr>"]
  by (simp add: group_key_def BIN_def week_of_def start_period_def)

text \<open>
  The claim C3 as stated fails on that scenario: the colour of the stored rate is not the
  first palette entry.
\<close>

theorem first_palette_entry_counterexample:
  "\<not> (map total_cap (agg scenario_X) = [60]
       \<and> map occupied (agg scenario_X) = [50]
       \<and> map_option f_rate scenario_X_frame = Some (8333 / 10000)
       \<and> Option.bind (map_option f_rate scenario_X_frame) rateColor = Some (PALETTE ! 0))"
  by code_simp

subsection \<open>The radius scales\<close>

lemma cap_range_pos:
  assumes "cap_range caps = Some (lo, hi)"
  shows "lo < hi"
proof -
  from assms obtain c cs where caps: "caps = c # cs"
    by (cases caps) (auto simp: cap_range_def)
  have "lo = fold min cs c"
    and "hi = (if fold max cs c \<le> fold min cs c then fold min cs c + 1 else fold max cs c)"
    using assms caps by (auto simp: cap_range_def Let_def)
  then show ?thesis by (auto split: if_splits)
qed

lemma unit_pos_range: "0 \<le> unit_pos lo hi c" "unit_pos lo hi c \<le> 1"
  by (simp_all add: unit_pos_def)

lemma unit_pos_mono: "lo < hi \<Longrightarrow> c1 \<le> c2 \<Longrightarrow> unit_pos lo hi c1 \<le> unit_pos lo hi c2"
  unfolding unit_pos_def
  by (intro max.mono min.mono divide_right_mono) simp_all

lemma cap_radius_eq:
  "lo < hi \<Longrightarrow>
   cap_radius lo hi c = Inr (py_round (CAP_MIN_R + unit_pos lo hi c * (CAP_MAX_R - CAP_MIN_R)) 1)"
  by (simp add: cap_radius_def py_div_def unit_pos_def Let_def)

lemma green_radius_eq:
  "lo < hi \<Longrightarrow>
   green_radius lo hi c =
     Inr (py_round (GREEN_MIN_M + unit_pos lo hi c * (GREEN_MAX_M - GREEN_MIN_M)) 1)"
  by (simp add: green_radius_def py_div_def unit_pos_def Let_def)

lemma interp_mono: "a \<le> b \<Longrightarrow> x \<le> y \<Longrightarrow> a + x * (b - a) \<le> a + y * (b - a)"
  for a b x y :: rat
  by (simp add: mult_right_mono)

lemma interp_range:
  fixes a b x :: rat
  assumes "a \<le> b" and "0 \<le> x" and "x \<le> 1"
  shows "a \<le> a + x * (b - a) \<and> a + x * (b - a) \<le> b"
proof -
  have "0 \<le> x * (b - a)" using assms by simp
  moreover have "x * (b - a) \<le> 1 * (b - a)"
    using assms by (intro mult_right_mono) simp_all
  ultimately show ?thesis by simp
qed

lemma GREEN_MIN_le_MAX: "GREEN_MIN_M \<le> GREEN_MAX_M"
  by (simp add: GREEN_MIN_M_def GREEN_MAX_M_def)

lemma CAP_MIN_le_MAX: "CAP_MIN_R \<le> CAP_MAX_R"
  by (simp add: CAP_MIN_R_def CAP_MAX_R_def)

lemma primary_bounds:
  "CAP_MIN_R \<le> py_round (CAP_MIN_R + unit_pos lo hi c * (CAP_MAX_R - CAP_MIN_R)) 1"
  "py_round (CAP_MIN_R + unit_pos lo hi c * (CAP_MAX_R - CAP_MIN_R)) 1 \<le> CAP_MAX_R"
proof -
  let ?v = "CAP_MIN_R + unit_pos lo hi c * (CAP_MAX_R - CAP_MIN_R)"
  have b: "CAP_MIN_R \<le> ?v \<and> ?v \<le> CAP_MAX_R"
    by (intro interp_range CAP_MIN_le_MAX unit_pos_range)
  have "py_round CAP_MIN_R 1 \<le> py_round ?v 1"
    using b by (intro py_round_mono) simp
  then show "CAP_MIN_R \<le> py_round ?v 1"
    using py_round_80 by (simp add: CAP_MIN_R_def)
  have "py_round ?v 1 \<le> py_round CAP_MAX_R 1"
    using b by (intro py_round_mono) simp
  then show "py_round ?v 1 \<le> CAP_MAX_R"
    using py_round_500 by (simp add: CAP_MAX_R_def)
qed

lemma halo_bounds:
  "1207 \<le> py_round (GREEN_MIN_M + unit_pos lo hi c * (GREEN_MAX_M - GREEN_MIN_M)) 1"
  "py_round (GREEN_MIN_M + unit_pos lo hi c * (GREEN_MAX_M - GREEN_MIN_M)) 1 \<le> 32187 / 10"
proof -
  let ?v = "GREEN_MIN_M + unit_pos lo hi c * (GREEN_MAX_M - GREEN_MIN_M)"
  have b: "GREEN_MIN_M \<le> ?v \<and> ?v \<le> GREEN_MAX_M"
    by (intro interp_range GREEN_MIN_le_MAX unit_pos_range)
  have "py_round GREEN_MIN_M 1 \<le> py_round ?v 1"
    using b by (intro py_round_mono) simp
  then show "1207 \<le> py_round ?v 1"
    unfolding py_round_GREEN_MIN_M .
  have "py_round ?v 1 \<le> py_round GREEN_MAX_M 1"
    using b by (intro py_round_mono) simp
  then show "py_round ?v 1 \<le> 32187 / 10"
    unfolding py_round_GREEN_MAX_M .
qed

subsection \<open>The frames of the timeline\<close>


lemma lookup_put_frame:
  "lookup_frame (put_frame sd (a, f)) sid (Some b) =
     (if sid = a_post a \<and> b = a_bin a then Some f else lookup_frame sd sid (Some b))"
  by (auto simp: lookup_frame_def put_frame_def Let_def update_conv' split: option.splits)

lemma lookup_foldl_put:
  "lookup_frame (foldl put_frame sd afs) sid (Some b) = Some f \<Longrightarrow>
   lookup_frame sd sid (Some b) = Some f
   \<or> (\<exists>a. (a, f) \<in> set afs \<and> a_post a = sid \<and> a_bin a = b)"
proof (induction afs arbitrary: sd)
  case Nil
  then show ?case by simp
next
  case (Cons af afs)
  obtain a g where af: "af = (a, g)" by (cases af)
  from Cons.prems
  have "lookup_frame (foldl put_frame (put_frame sd (a, g)) afs) sid (Some b) = Some f"
    by (simp add: af)
  from Cons.IH [OF this] show ?case
    by (auto simp: af lookup_put_frame split: if_splits)
qed


lemma make_frame_ok:
  assumes "lo < hi"
  shows "make_frame lo hi a =
     Inr \<lparr>f_lat = py_round (a_lat a) 6, f_lon = py_round (a_lon a) 6,
          f_rate = py_round (rate a) 4,
          radius_m = py_round (CAP_MIN_R + unit_pos lo hi (total_cap a) * (CAP_MAX_R - CAP_MIN_R)) 1,
          green_r =
            py_round (GREEN_MIN_M + unit_pos lo hi (total_cap a) * (GREEN_MAX_M - GREEN_MIN_M)) 1\<rparr>"
  by (simp add: make_frame_def cap_radius_eq [OF assms] green_radius_eq [OF assms])

lemma make_frames_ok:
  assumes "lo < hi"
  shows "make_frames lo hi ag = Inr (map (\<lambda>a. (a, projr (make_frame lo hi a))) ag)"
  by (induction ag) (simp_all add: make_frame_ok [OF assms])



lemma timeline_frame:
  assumes "shelter_data ag = Inr sd" and "lookup_frame sd sid (Some b) = Some f"
  shows "\<exists>lo hi a. cap_range (map total_cap ag) = Some (lo, hi) \<and> a \<in> set ag
           \<and> a_post a = sid \<and> a_bin a = b \<and> make_frame lo hi a = Inr f"
proof (cases "cap_range (map total_cap ag)")
  case None
  with assms show ?thesis by (simp add: shelter_data_def lookup_frame_def)
next
  case (Some lh)
  obtain lo hi where lh: "lh = (lo, hi)" by (cases lh)
  have lt: "lo < hi" using Some lh cap_range_pos by simp
  define afs where "afs = map (\<lambda>a. (a, projr (make_frame lo hi a))) ag"
  have "sd = foldl put_frame [] afs"
    using assms(1) Some lh by (simp add: shelter_data_def make_frames_ok [OF lt] afs_def)
  with assms(2) have l: "lookup_frame (foldl put_frame [] afs) sid (Some b) = Some f"
    by simp
  have "lookup_frame [] sid (Some b) = None" by (simp add: lookup_frame_def)
  with lookup_foldl_put [OF l]
  obtain a where a: "(a, f) \<in> set afs" "a_post a = sid" "a_bin a = b"
    by auto
  then have "a \<in> set ag" and "f = projr (make_frame lo hi a)" by (auto simp: afs_def)
  then have "make_frame lo hi a = Inr f" by (simp add: make_frame_ok [OF lt])
  with a \<open>a \<in> set ag\<close> Some lh show ?thesis by blast
qed

lemma timeline_radius_bounds:
  assumes "shelter_data ag = Inr sd" and "lookup_frame sd sid (Some b) = Some f"
  shows "CAP_MIN_R \<le> radius_m f \<and> radius_m f \<le> CAP_MAX_R
         \<and> 1207 \<le> green_r f \<and> green_r f \<le> 32187 / 10 \<and> CAP_MIN_R \<le> green_r f"
proof -
  from timeline_frame [OF assms] obtain lo hi a
    where r: "cap_range (map total_cap ag) = Some (lo, hi)" and f: "make_frame lo hi a = Inr f"
    by blast
  have lt: "lo < hi" using r by (rule cap_range_pos)
  have "radius_m f = py_round (CAP_MIN_R + unit_pos lo hi (total_cap a) * (CAP_MAX_R - CAP_MIN_R)) 1"
    and "green_r f =
           py_round (GREEN_MIN_M + unit_pos lo hi (total_cap a) * (GREEN_MAX_M - GREEN_MIN_M)) 1"
    using f by (auto simp: make_frame_ok [OF lt])
  then show ?thesis
    using primary_bounds [of lo hi "total_cap a"] halo_bounds [of lo hi "total_cap a"]
    by (simp add: CAP_MIN_R_def)
qed

text \<open>
  C4, as the code has it. For the capacity range of any dataset and any two capacities
  \<open>c1 \<le> c2\<close>, neither radius function divides by zero, both are monotone, the primary
  radius lies in [80, 500], and the halo radius lies in [1207.0, 3218.7]: the configured
  bounds 1207.008 and 3218.688 rounded to one decimal. The halo radius is at or above the
  primary lower bound. The same bounds hold for every frame of the timeline built from a
  dataset with these capacities.
\<close>

theorem radius_monotone_bounded:
  assumes "cap_range caps = Some (cap_min, cap_max)" and "c1 \<le> c2"
  shows "(\<exists>r1 r2 g1 g2.
           cap_radius cap_min cap_max c1 = Inr r1 \<and> cap_radius cap_min cap_max c2 = Inr r2
           \<and> green_radius cap_min cap_max c1 = Inr g1 \<and> green_radius cap_min cap_max c2 = Inr g2
           \<and> r1 \<le> r2 \<and> g1 \<le> g2
           \<and> CAP_MIN_R \<le> r1 \<and> r1 \<le> CAP_MAX_R \<and> CAP_MIN_R \<le> r2 \<and> r2 \<le> CAP_MAX_R
           \<and> 1207 \<le> g1 \<and> g1 \<le> 32187 / 10 \<and> 1207 \<le> g2 \<and> g2 \<le> 32187 / 10
           \<and> CAP_MIN_R \<le> g1 \<and> CAP_MIN_R \<le> g2)
         \<and> (\<forall>ag sd sid b f.
               map total_cap ag = caps \<and> shelter_data ag = Inr sd
               \<and> lookup_frame sd sid (Some b) = Some f \<longrightarrow>
               CAP_MIN_R \<le> radius_m f \<and> radius_m f \<le> CAP_MAX_R
               \<and> 1207 \<le> green_r f \<and> green_r f \<le> 32187 / 10 \<and> CAP_MIN_R \<le> green_r f)"
proof -
  have lt: "cap_min < cap_max" using assms(1) by (rule cap_range_pos)
  let ?x1 = "unit_pos cap_min cap_max c1" and ?x2 = "unit_pos cap_min cap_max c2"
  have x: "?x1 \<le> ?x2" using lt assms(2) by (rule unit_pos_mono)
  have r12: "py_round (CAP_MIN_R + ?x1 * (CAP_MAX_R - CAP_MIN_R)) 1
             \<le> py_round (CAP_MIN_R + ?x2 * (CAP_MAX_R - CAP_MIN_R)) 1"
    by (intro py_round_mono interp_mono CAP_MIN_le_MAX x)
  have g12: "py_round (GREEN_MIN_M + ?x1 * (GREEN_MAX_M - GREEN_MIN_M)) 1
             \<le> py_round (GREEN_MIN_M + ?x2 * (GREEN_MAX_M - GREEN_MIN_M)) 1"
    by (intro py_round_mono interp_mono GREEN_MIN_le_MAX x)
  have low: "CAP_MIN_R \<le> py_round (GREEN_MIN_M + unit_pos cap_min cap_max c * (GREEN_MAX_M - GREEN_MIN_M)) 1"
    for c
    using halo_bounds(1) [of cap_min cap_max c] by (simp add: CAP_MIN_R_def)
  have fun_level: "\<exists>r1 r2 g1 g2.
           cap_radius cap_min cap_max c1 = Inr r1 \<and> cap_radius cap_min cap_max c2 = Inr r2
           \<and> green_radius cap_min cap_max c1 = Inr g1 \<and> green_radius cap_min cap_max c2 = Inr g2
           \<and> r1 \<le> r2 \<and> g1 \<le> g2
           \<and> CAP_MIN_R \<le> r1 \<and> r1 \<le> CAP_MAX_R \<and> CAP_MIN_R \<le> r2 \<and> r2 \<le> CAP_MAX_R
           \<and> 1207 \<le> g1 \<and> g1 \<le> 32187 / 10 \<and> 1207 \<le> g2 \<and> g2 \<le> 32187 / 10
           \<and> CAP_MIN_R \<le> g1 \<and> CAP_MIN_R \<le> g2"
    unfolding cap_radius_eq [OF lt] green_radius_eq [OF lt]
    using r12 g12 primary_bounds halo_bounds low by simp
  show ?thesis
    using fun_level timeline_radius_bounds by blast
qed

theorem radius_monotone_bounded_witness:
  "cap_range [10, 100, 40] = Some (10, 100)
   \<and> cap_radius 10 100 40 = Inr 220 \<and> cap_radius 10 100 55 = Inr 290
   \<and> green_radius 10 100 40 = Inr (18776 / 10) \<and> green_radius 10 100 55 = Inr (22128 / 10)"
proof -
  have range: "cap_range [10, 100, 40] = Some (10, 100)"
    by (simp add: cap_range_def)
  have le: "(40 :: rat) \<le> 55" by simp
  from radius_monotone_bounded [OF range le]
  obtain r1 r2 g1 g2 where
    "cap_radius 10 100 40 = Inr r1" "cap_radius 10 100 55 = Inr r2"
    "green_radius 10 100 40 = Inr g1" "green_radius 10 100 55 = Inr g2"
    by blast
  moreover have "cap_radius 10 100 40 = Inr 220" by code_simp
  moreover have "cap_radius 10 100 55 = Inr 290" by code_simp
  moreover have "green_radius 10 100 40 = Inr (18776 / 10)" by code_simp
  moreover have "green_radius 10 100 55 = Inr (22128 / 10)" by code_simp
  ultimately show ?thesis using range by simp
qed

text \<open>
  The claim C4 as stated fails for the halo. In the timeline built from the three sample
  rows, the entity with the smallest capacity has the halo radius 1207.0, below the
  configured minimum of 0.75 miles (1207.008 m), and the sample with the largest capacity
  has 3218.7, above the configured maximum of 2 miles (3218.688 m).
\<close>

theorem halo_bounds_counterexample:
  "map_option green_r
     (lookup_frame (SHELTER_DATA (projr (build scenario_dupes))) ''M4C1B5'' (Some 19723))
     = Some 1207
   \<and> 1207 < GREEN_MIN_M
   \<and> map_option green_r
       (lookup_frame (SHELTER_DATA (projr (build scenario_dupes))) ''M5V2T6'' (Some 19730))
       = Some (32187 / 10)
   \<and> GREEN_MAX_M < 32187 / 10"
  by code_simp

subsection \<open>The degenerate capacity range\<close>








subsection \<open>The jitter\<close>

lemma jitter_axis_bound:
  "\<bar>(of_nat (k mod 1000) / 999 - 5 / 10) * (4 / 1000 :: rat)\<bar> \<le> 2 / 1000"
proof -
  define q :: rat where "q = of_nat (k mod 1000) / 999"
  have "k mod 1000 \<le> 999" by simp
  then have "(of_nat (k mod 1000) :: rat) \<le> of_nat 999" by (rule of_nat_mono)
  then have u: "q \<le> 1" by (simp add: q_def)
  have l: "0 \<le> q" by (simp add: q_def)
  have "\<bar>(q - 5 / 10) * (4 / 1000)\<bar> \<le> 2 / 1000"
    using u l by (simp add: abs_if)
  then show ?thesis by (simp only: q_def)
qed

lemma jitter_M5V2T6: "jitter example_md5_hex8 ''M5V2T6'' = (101 / 99900, 947 / 499500)"
  by (simp add: jitter_def example_md5_hex8_def)

lemma dupe_cong: "triple r1 = triple r2 \<Longrightarrow> dupe df r1 = dupe df r2"
  by (simp add: dupe_def)

lemma jitter_row_same_triple:
  assumes "triple r1 = triple r2"
  shows "triple (jitter_row md5 df r1) = triple (jitter_row md5 df r2)"
  using assms dupe_cong [OF assms, of df] by (auto simp: jitter_row_def triple_def)

lemma jitter_step_nth:
  "i < length df \<Longrightarrow> jitter_step md5 df ! i = jitter_row md5 df (df ! i)"
  by (simp add: jitter_step_def)

lemma dupe_scenario: "dupe scenario_dupes (scenario_dupes ! 0)"
  by (simp add: dupe_def scenario_dupes_def triple_def)

text \<open>
  C5: the offset is computed from the hash of the code and from nothing else: equal hash
  values give equal offsets, and in any frame the offset added to a duplicated row is the
  jitter of that row's code. Each component of the offset has magnitude at most 0.002,
  whatever the hash value.
\<close>

theorem jitter_deterministic_bounded:
  "\<bar>fst (jitter md5_hex8 code)\<bar> \<le> 2 / 1000
   \<and> \<bar>snd (jitter md5_hex8 code)\<bar> \<le> 2 / 1000
   \<and> (md5_hex8 code = md5_hex8 code' \<longrightarrow> jitter md5_hex8 code = jitter md5_hex8 code')
   \<and> (dupe df r \<longrightarrow>
        jitter_row md5_hex8 df r =
          r\<lparr>lat := lat r + fst (jitter md5_hex8 (post r)),
            lon := lon r + snd (jitter md5_hex8 (post r))\<rparr>)"
proof (intro conjI impI)
  show "\<bar>fst (jitter md5_hex8 code)\<bar> \<le> 2 / 1000"
    using jitter_axis_bound [of "md5_hex8 code"] by (simp add: jitter_def Let_def)
  show "\<bar>snd (jitter md5_hex8 code)\<bar> \<le> 2 / 1000"
    using jitter_axis_bound [of "md5_hex8 code div 1000"] by (simp add: jitter_def Let_def)
next
  assume "md5_hex8 code = md5_hex8 code'"
  then show "jitter md5_hex8 code = jitter md5_hex8 code'"
    by (simp add: jitter_def)
next
  assume "dupe df r"
  then show "jitter_row md5_hex8 df r =
               r\<lparr>lat := lat r + fst (jitter md5_hex8 (post r)),
                 lon := lon r + snd (jitter md5_hex8 (post r))\<rparr>"
    by (simp add: jitter_row_def)
qed

theorem jitter_deterministic_bounded_witness:
  "dupe scenario_dupes (scenario_dupes ! 0)
   \<and> lat (jitter_row example_md5_hex8 scenario_dupes (scenario_dupes ! 0)) = 4365 / 100 + 101 / 99900
   \<and> lon (jitter_row example_md5_hex8 scenario_dupes (scenario_dupes ! 0))
       = - (7939 / 100) + 947 / 499500"
proof -
  have "jitter_row example_md5_hex8 scenario_dupes (scenario_dupes ! 0) =
          (scenario_dupes ! 0)
            \<lparr>lat := lat (scenario_dupes ! 0)
                      + fst (jitter example_md5_hex8 (post (scenario_dupes ! 0))),
             lon := lon (scenario_dupes ! 0)
                      + snd (jitter example_md5_hex8 (post (scenario_dupes ! 0)))\<rparr>"
    using jitter_deterministic_bounded [of example_md5_hex8 "''M5V2T6''" "''M5V2T6''"
        scenario_dupes "scenario_dupes ! 0"] dupe_scenario
    by blast
  moreover have "post (scenario_dupes ! 0) = ''M5V2T6''"
    and "lat (scenario_dupes ! 0) = 4365 / 100"
    and "lon (scenario_dupes ! 0) = - (7939 / 100)"
    by (simp_all add: scenario_dupes_def)
  ultimately show ?thesis
    using dupe_scenario by (simp add: jitter_M5V2T6)
qed

text \<open>
  C10: the jitter step keeps the rows in place. Two rows with the same latitude, longitude
  and code receive the same offset, so they still share their coordinates and code
  afterwards; a row whose triple occurs more than once is moved by the jitter of its code;
  a row whose triple occurs once is unchanged.
\<close>

theorem jitter_group_moves_together:
  assumes "i < length df" and "j < length df"
  shows "length (jitter_step md5_hex8 df) = length df
    \<and> (triple (df ! i) = triple (df ! j) \<longrightarrow>
         triple (jitter_step md5_hex8 df ! i) = triple (jitter_step md5_hex8 df ! j)
         \<and> lat (jitter_step md5_hex8 df ! i) - lat (df ! i)
             = lat (jitter_step md5_hex8 df ! j) - lat (df ! j)
         \<and> lon (jitter_step md5_hex8 df ! i) - lon (df ! i)
             = lon (jitter_step md5_hex8 df ! j) - lon (df ! j))
    \<and> (1 < length (filter (\<lambda>q. triple q = triple (df ! i)) df) \<longrightarrow>
         lat (jitter_step md5_hex8 df ! i) = lat (df ! i) + fst (jitter md5_hex8 (post (df ! i)))
         \<and> lon (jitter_step md5_hex8 df ! i) = lon (df ! i) + snd (jitter md5_hex8 (post (df ! i))))
    \<and> (length (filter (\<lambda>q. triple q = triple (df ! i)) df) = 1 \<longrightarrow>
         jitter_step md5_hex8 df ! i = df ! i)"
proof (intro conjI impI)
  show "length (jitter_step md5_hex8 df) = length df"
    by (simp add: jitter_step_def)
next
  assume t: "triple (df ! i) = triple (df ! j)"
  show "triple (jitter_step md5_hex8 df ! i) = triple (jitter_step md5_hex8 df ! j)"
    using assms jitter_row_same_triple [OF t] by (simp add: jitter_step_nth)
  have d: "dupe df (df ! i) = dupe df (df ! j)" using t by (rule dupe_cong)
  have p: "post (df ! i) = post (df ! j)" using t by (simp add: triple_def)
  show "lat (jitter_step md5_hex8 df ! i) - lat (df ! i)
          = lat (jitter_step md5_hex8 df ! j) - lat (df ! j)"
    using assms d p by (simp add: jitter_step_nth jitter_row_def)
  show "lon (jitter_step md5_hex8 df ! i) - lon (df ! i)
          = lon (jitter_step md5_hex8 df ! j) - lon (df ! j)"
    using assms d p by (simp add: jitter_step_nth jitter_row_def)
next
  assume "1 < length (filter (\<lambda>q. triple q = triple (df ! i)) df)"
  then have "dupe df (df ! i)" by (simp add: dupe_def)
  then show "lat (jitter_step md5_hex8 df ! i) = lat (df ! i) + fst (jitter md5_hex8 (post (df ! i)))"
    and "lon (jitter_step md5_hex8 df ! i) = lon (df ! i) + snd (jitter md5_hex8 (post (df ! i)))"
    using assms by (simp_all add: jitter_step_nth jitter_row_def)
next
  assume "length (filter (\<lambda>q. triple q = triple (df ! i)) df) = 1"
  then have "\<not> dupe df (df ! i)" by (simp add: dupe_def)
  then show "jitter_step md5_hex8 df ! i = df ! i"
    using assms by (simp add: jitter_step_nth jitter_row_def)
qed

theorem jitter_group_moves_together_witness:
  "triple (scenario_dupes ! 0) = triple (scenario_dupes ! 1)
   \<and> scenario_dupes ! 0 \<noteq> scenario_dupes ! 1
   \<and> triple (jitter_step example_md5_hex8 scenario_dupes ! 0)
       = triple (jitter_step example_md5_hex8 scenario_dupes ! 1)
   \<and> lat (jitter_step example_md5_hex8 scenario_dupes ! 0) = 4365 / 100 + 101 / 99900
   \<and> length (filter (\<lambda>q. triple q = triple (scenario_dupes ! 2)) scenario_dupes) = 1
   \<and> jitter_step example_md5_hex8 scenario_dupes ! 2 = scenario_dupes ! 2"
proof -
  have len: "length scenario_dupes = 3" by (simp add: scenario_dupes_def)
  have t: "triple (scenario_dupes ! 0) = triple (scenario_dupes ! 1)"
    by (simp add: scenario_dupes_def triple_def)
  have ne: "scenario_dupes ! 0 \<noteq> scenario_dupes ! 1"
    by (simp add: scenario_dupes_def)
  have c0: "1 < length (filter (\<lambda>q. triple q = triple (scenario_dupes ! 0)) scenario_dupes)"
    by (simp add: scenario_dupes_def triple_def)
  have c2: "length (filter (\<lambda>q. triple q = triple (scenario_dupes ! 2)) scenario_dupes) = 1"
    by (simp add: scenario_dupes_def triple_def)
  have a: "triple (jitter_step example_md5_hex8 scenario_dupes ! 0)
             = triple (jitter_step example_md5_hex8 scenario_dupes ! 1)"
    and b: "lat (jitter_step example_md5_hex8 scenario_dupes ! 0)
              = lat (scenario_dupes ! 0) + fst (jitter example_md5_hex8 (post (scenario_dupes ! 0)))"
    using jitter_group_moves_together [of 0 scenario_dupes 1 example_md5_hex8] t c0
    by (simp_all add: len)
  have c: "jitter_step example_md5_hex8 scenario_dupes ! 2 = scenario_dupes ! 2"
    using jitter_group_moves_together [of 2 scenario_dupes 2 example_md5_hex8] c2
    by (simp add: len)
  have "post (scenario_dupes ! 0) = ''M5V2T6''" and "lat (scenario_dupes ! 0) = 4365 / 100"
    by (simp_all add: scenario_dupes_def)
  with b have b': "lat (jitter_step example_md5_hex8 scenario_dupes ! 0) = 4365 / 100 + 101 / 99900"
    by (simp add: jitter_M5V2T6)
  from t ne a b' c2 c show ?thesis by simp
qed

subsection \<open>The cleaning step\<close>

lemma clean_example:
  "clean_one example_to_numeric example_to_datetime example_raw
     = Some \<lparr>c_post = ''M5V2T6'', c_fsa = ''M5V'', c_date = 19723, c_cap = 50, c_occ = 40\<rparr>"
  by code_simp

lemma set_clean:
  "set (clean to_numeric to_datetime rows)
     = {out. \<exists>r \<in> set rows. clean_one to_numeric to_datetime r = Some out}"
  by (force simp: clean_def List.map_filter_def image_iff)

text \<open>
  C9, as the code has it: for every row the cleaning step accepts, the capacity, the
  occupied value and the date of the output are the coerced values of the raw cells, and the
  location code of the output is the raw code in upper case with its spaces removed (so it
  equals the raw code exactly when the raw code is already in that form); it matches the
  pattern, and the area code is its first three characters.
\<close>

theorem clean_one_values:
  assumes "clean_one to_numeric to_datetime r = Some out"
  shows "\<exists>p. LOCATION_POSTAL_CODE r = Some p
           \<and> c_post out = normalize_code p
           \<and> (normalize_code p = p \<longrightarrow> c_post out = p)
           \<and> fullmatch_pattern (c_post out)
           \<and> c_fsa out = take 3 (c_post out)
           \<and> to_numeric (ACTUAL_CAPACITY r) = Some (c_cap out)
           \<and> to_numeric (OCCUPIED_CAPACITY r) = Some (c_occ out)
           \<and> to_datetime (OCCUPANCY_DATE r) = Some (c_date out)"
  using assms
  by (auto simp: clean_one_def Let_def split: option.splits if_splits)

theorem clean_one_values_witness:
  "clean_one example_to_numeric example_to_datetime example_raw
     = Some \<lparr>c_post = ''M5V2T6'', c_fsa = ''M5V'', c_date = 19723, c_cap = 50, c_occ = 40\<rparr>
   \<and> normalize_code ''m5v 2t6'' = ''M5V2T6''
   \<and> example_to_numeric ''50'' = Some 50
   \<and> example_to_numeric ''40'' = Some 40
   \<and> example_to_datetime ''2024-01-01'' = Some 19723"
  using clean_one_values [OF clean_example] clean_example
  by (simp add: example_raw_def)

text \<open>
  The claim C9 as stated fails: the row with the raw code \<^verbatim>\<open>m5v 2t6\<close> is accepted and its
  code in the output is \<^verbatim>\<open>M5V2T6\<close>.
\<close>

theorem clean_mutates_code_counterexample:
  "LOCATION_POSTAL_CODE example_raw = Some ''m5v 2t6''
   \<and> map_option c_post (clean_one example_to_numeric example_to_datetime example_raw)
       = Some ''M5V2T6''
   \<and> ''M5V2T6'' \<noteq> ''m5v 2t6''"
  by (simp add: clean_example) (simp add: example_raw_def)

subsection \<open>The retained weeks\<close>











subsection \<open>Rendering one week\<close>

lemma pulse_step_ends:
  "pulse_step r 0 = r"
  "pulse_step r (ANIM_MS * (40 / 100)) = r * (1 + PULSE_OVERSHOOT)"
  "ANIM_MS \<le> el \<Longrightarrow> pulse_step r el = r"
  by (simp_all add: pulse_step_def easeOut_def ANIM_MS_def Let_def)









lemma renderBin_state:
  "currentBin (fst (renderBin art idx st)) = idx"
  "circles (fst (renderBin art idx st)) = circles st"
  "prevRate (fst (renderBin art idx st)) =
     fst (render_loop (SHELTER_DATA art) (js_index (BINS art) idx) (circles st) (prevRate st))"
  by (simp_all add: renderBin_def split_beta Let_def)



text \<open>The state the page starts from, and what the handlers keep.\<close>

lemma init_state:
  assumes "init art = Inr (st, es)"
  shows "currentBin st = 0" and "circles st = map fst (SHELTER_DATA art)"
  using assms by (auto simp: init_def renderBin_def split_beta Let_def split: sum.splits)

lemma put_frame_distinct: "distinct (map fst sd) \<Longrightarrow> distinct (map fst (put_frame sd af))"
  by (cases af) (simp add: put_frame_def Let_def distinct_update)

lemma foldl_put_frame_distinct:
  "distinct (map fst sd) \<Longrightarrow> distinct (map fst (foldl put_frame sd afs))"
  by (induction afs arbitrary: sd) (simp_all add: put_frame_distinct)

lemma shelter_data_distinct: "shelter_data ag = Inr sd \<Longrightarrow> distinct (map fst sd)"
  by (auto simp: shelter_data_def foldl_put_frame_distinct split: option.splits sum.splits)

lemma handle_circles: "circles (fst (handle art ev st)) = circles st"
  by (cases ev) (simp_all add: renderBin_state stopPlay_def startPlay_def tick_def split_beta Let_def)


lemma init_Y: "init scenario_Y = Inr (renderBin scenario_Y 0 (state_Y 0 (70 / 100)))"
  by (simp add: init_def scenario_Y_def state_Y_def frame_Y_def)

lemma run_circles: "circles (run art evs st) = circles st"
  by (induction evs arbitrary: st) (simp_all add: handle_circles del: handle.simps)




subsection \<open>The transport controls\<close>

lemma handle_currentBin:
  "currentBin (fst (handle art (SliderInput v) st)) = v"
  "currentBin (fst (handle art ClickPrev st)) = max 0 (currentBin st - 1)"
  "currentBin (fst (handle art ClickNext st))
     = min (int (length (BINS art)) - 1) (currentBin st + 1)"
  "currentBin (fst (handle art ClickPlay st)) = currentBin st"
  "currentBin (fst (handle art TimerFires st)) =
     (if playTimer st
      then (if currentBin st + 1 \<ge> int (length (BINS art)) then 0 else currentBin st + 1)
      else currentBin st)"
  by (simp_all add: renderBin_state stopPlay_def startPlay_def tick_def split_beta Let_def)

lemma handle_in_range:
  assumes "BINS art \<noteq> []" and "0 \<le> currentBin st"
    and "currentBin st \<le> int (length (BINS art)) - 1" and "delivered art ev"
  shows "0 \<le> currentBin (fst (handle art ev st))
         \<and> currentBin (fst (handle art ev st)) \<le> int (length (BINS art)) - 1"
proof -
  have n: "0 < int (length (BINS art))" using assms(1) by simp
  show ?thesis
    using assms(2,3,4) n
    by (cases ev) (auto simp add: handle_currentBin simp del: handle.simps)
qed

lemma run_in_range:
  assumes "BINS art \<noteq> []" and "list_all (delivered art) evs"
    and "0 \<le> currentBin st" and "currentBin st \<le> int (length (BINS art)) - 1"
  shows "0 \<le> currentBin (run art evs st)
         \<and> currentBin (run art evs st) \<le> int (length (BINS art)) - 1"
  using assms(2,3,4)
proof (induction evs arbitrary: st)
  case Nil
  then show ?case by simp
next
  case (Cons ev evs)
  have "0 \<le> currentBin (fst (handle art ev st))
        \<and> currentBin (fst (handle art ev st)) \<le> int (length (BINS art)) - 1"
    using Cons.prems assms(1) by (intro handle_in_range) simp_all
  then show ?case using Cons by simp
qed

text \<open>
  C8: with at least one week, from a state whose index is within \<open>[0, n - 1]\<close>, after any
  sequence of transport events (slider inputs within the slider's range, step backward, step
  forward, play/pause, timer ticks) the index is again within \<open>[0, n - 1]\<close>. Step backward
  gives \<open>max 0 (i - 1)\<close>, step forward \<open>min (n - 1) (i + 1)\<close>, a tick at the last week gives 0
  and a tick elsewhere \<open>i + 1\<close>.
\<close>

theorem transport_index_in_range:
  assumes "BINS art \<noteq> []" and "0 \<le> currentBin st"
    and "currentBin st \<le> int (length (BINS art)) - 1"
    and "list_all (delivered art) evs"
  shows "0 \<le> currentBin (run art evs st)
    \<and> currentBin (run art evs st) \<le> int (length (BINS art)) - 1
    \<and> currentBin (fst (handle art ClickPrev st)) = max 0 (currentBin st - 1)
    \<and> currentBin (fst (handle art ClickNext st))
        = min (int (length (BINS art)) - 1) (currentBin st + 1)
    \<and> (playTimer st \<and> currentBin st = int (length (BINS art)) - 1 \<longrightarrow>
         currentBin (fst (handle art TimerFires st)) = 0)
    \<and> (playTimer st \<and> currentBin st < int (length (BINS art)) - 1 \<longrightarrow>
         currentBin (fst (handle art TimerFires st)) = currentBin st + 1)"
  using run_in_range [OF assms(1,4,2,3)]
  by (simp add: handle_currentBin del: handle.simps)

theorem transport_index_in_range_witness:
  "currentBin (fst (handle scenario_Y TimerFires (startPlay (state_Y 3 (9701 / 10000))))) = 0
   \<and> currentBin (fst (handle scenario_Y ClickPrev (startPlay (state_Y 3 (9701 / 10000))))) = 2
   \<and> currentBin (fst (handle scenario_Y ClickNext (startPlay (state_Y 3 (9701 / 10000))))) = 3
   \<and> 0 \<le> currentBin (run scenario_Y [ClickNext, SliderInput 0, ClickPrev, ClickPlay, TimerFires]
                          (startPlay (state_Y 3 (9701 / 10000))))
   \<and> currentBin (run scenario_Y [ClickNext, SliderInput 0, ClickPrev, ClickPlay, TimerFires]
                    (startPlay (state_Y 3 (9701 / 10000)))) \<le> 3"
proof -
  have ne: "BINS scenario_Y \<noteq> []" and len: "int (length (BINS scenario_Y)) - 1 = 3"
    by (simp_all add: scenario_Y_def)
  have cur: "currentBin (startPlay (state_Y 3 (9701 / 10000))) = 3"
    and tm: "playTimer (startPlay (state_Y 3 (9701 / 10000)))"
    by (simp_all add: startPlay_def state_Y_def)
  have lo: "0 \<le> currentBin (startPlay (state_Y 3 (9701 / 10000)))"
    and hi: "currentBin (startPlay (state_Y 3 (9701 / 10000))) \<le> int (length (BINS scenario_Y)) - 1"
    by (simp_all add: cur len)
  have evs: "list_all (delivered scenario_Y)
               [ClickNext, SliderInput 0, ClickPrev, ClickPlay, TimerFires]"
    by (simp add: scenario_Y_def)
  from transport_index_in_range [OF ne lo hi evs] show ?thesis
    using tm by (simp add: cur len del: handle.simps run.simps)
qed

end
